theory Spec2Isabelle
  imports Complex_Main "HOL-Library.Sublist" "HOL-Library.AList"
begin

section \<open>Python values\<close>

text \<open>
  The crawl results that the middleware consumes are Python dictionaries whose shape
  differs from engine to engine, and the code reads them with \<^verbatim>\<open>dict.get\<close> and a
  default. They are modelled as untyped values. A dictionary is an association list in
  insertion order. A string is a list of 8-bit characters (the UTF-8 bytes of the Python
  string). A float only arises as \<^verbatim>\<open>page_size / 1024\<close>; it is modelled as the exact
  quotient, which is also the float result while the size is below \<open>2 ^ 53\<close>.
\<close>

datatype pyval =
    PNone
  | PBool bool
  | PInt int
  | PFloat rat
  | PStr string
  | PList "pyval list"
  | PDict "(pyval \<times> pyval) list"

text \<open>An exception, with the message that \<^verbatim>\<open>str(e)\<close> gives.\<close>

datatype pyexc =
    AttributeError string
  | TypeError string
  | ValueError string
  | RequestException string
  | HTTPError string

definition exc_str :: "pyexc \<Rightarrow> string" where
  "exc_str e = (case e of
       AttributeError m \<Rightarrow> m | TypeError m \<Rightarrow> m | ValueError m \<Rightarrow> m
     | RequestException m \<Rightarrow> m | HTTPError m \<Rightarrow> m)"

definition py_bind :: "pyexc + 'a \<Rightarrow> ('a \<Rightarrow> pyexc + 'b) \<Rightarrow> pyexc + 'b" where
  "py_bind m f = (case m of Inl e \<Rightarrow> Inl e | Inr v \<Rightarrow> f v)"

definition type_name :: "pyval \<Rightarrow> string" where
  "type_name v = (case v of
       PNone \<Rightarrow> ''NoneType'' | PBool _ \<Rightarrow> ''bool'' | PInt _ \<Rightarrow> ''int''
     | PFloat _ \<Rightarrow> ''float'' | PStr _ \<Rightarrow> ''str'' | PList _ \<Rightarrow> ''list''
     | PDict _ \<Rightarrow> ''dict'')"

definition quoted :: "string \<Rightarrow> string" where
  "quoted s = [CHR 0x27] @ s @ [CHR 0x27]"

definition no_attribute :: "pyval \<Rightarrow> string \<Rightarrow> pyexc" where
  "no_attribute v a =
     AttributeError (quoted (type_name v) @ '' object has no attribute '' @ quoted a)"

text \<open>Truthiness, as \<^verbatim>\<open>if x\<close>, \<^verbatim>\<open>not x\<close> and \<^verbatim>\<open>bool(x)\<close> read a value.\<close>

definition py_truthy :: "pyval \<Rightarrow> bool" where
  "py_truthy v = (case v of
       PNone \<Rightarrow> False | PBool b \<Rightarrow> b | PInt i \<Rightarrow> i \<noteq> 0 | PFloat r \<Rightarrow> r \<noteq> 0
     | PStr s \<Rightarrow> s \<noteq> [] | PList xs \<Rightarrow> xs \<noteq> [] | PDict kvs \<Rightarrow> kvs \<noteq> [])"

text \<open>
  \<^verbatim>\<open>d.get(k, default)\<close> with a string key; on a value that is no dictionary the
  attribute lookup raises.
\<close>

definition py_get :: "pyval \<Rightarrow> string \<Rightarrow> pyval \<Rightarrow> pyexc + pyval" where
  "py_get d k dflt = (case d of
       PDict kvs \<Rightarrow> Inr (case map_of kvs (PStr k) of None \<Rightarrow> dflt | Some v \<Rightarrow> v)
     | _ \<Rightarrow> Inl (no_attribute d ''get''))"

definition py_len_int :: "pyval \<Rightarrow> pyexc + int" where
  "py_len_int v = (case v of
       PStr s \<Rightarrow> Inr (int (length s))
     | PList xs \<Rightarrow> Inr (int (length xs))
     | PDict kvs \<Rightarrow> Inr (int (length kvs))
     | _ \<Rightarrow> Inl (TypeError (''object of type '' @ quoted (type_name v) @ '' has no len()'')))"

definition py_len :: "pyval \<Rightarrow> pyexc + pyval" where
  "py_len v = py_bind (py_len_int v) (\<lambda>n. Inr (PInt n))"

text \<open>The elements a \<^verbatim>\<open>for\<close> loop visits: a dictionary yields its keys, a string its characters.\<close>

definition py_iter :: "pyval \<Rightarrow> pyexc + pyval list" where
  "py_iter v = (case v of
       PList xs \<Rightarrow> Inr xs
     | PDict kvs \<Rightarrow> Inr (map fst kvs)
     | PStr s \<Rightarrow> Inr (map (\<lambda>c. PStr [c]) s)
     | _ \<Rightarrow> Inl (TypeError (quoted (type_name v) @ '' object is not iterable'')))"

text \<open>
  The slice \<^verbatim>\<open>v[:n]\<close>. A dictionary rejects the slice as a key (\<^verbatim>\<open>TypeError\<close>
  up to CPython 3.11).
\<close>

definition py_slice_to :: "nat \<Rightarrow> pyval \<Rightarrow> pyexc + pyval" where
  "py_slice_to n v = (case v of
       PList xs \<Rightarrow> Inr (PList (take n xs))
     | PStr s \<Rightarrow> Inr (PStr (take n s))
     | PDict _ \<Rightarrow> Inl (TypeError (''unhashable type: '' @ quoted ''slice''))
     | _ \<Rightarrow> Inl (TypeError (quoted (type_name v) @ '' object is not subscriptable'')))"

definition py_num :: "pyval \<Rightarrow> rat option" where
  "py_num v = (case v of
       PBool b \<Rightarrow> Some (if b then 1 else 0) | PInt i \<Rightarrow> Some (of_int i)
     | PFloat r \<Rightarrow> Some r | _ \<Rightarrow> None)"

text \<open>True division \<^verbatim>\<open>v / d\<close> by a non-zero integer literal.\<close>

definition py_truediv :: "pyval \<Rightarrow> int \<Rightarrow> pyexc + pyval" where
  "py_truediv v d = (case py_num v of
       Some x \<Rightarrow> Inr (PFloat (x / of_int d))
     | None \<Rightarrow> Inl (TypeError (''unsupported operand type(s) for /: ''
                  @ quoted (type_name v) @ '' and '' @ quoted ''int'')))"

text \<open>
  \<^verbatim>\<open>a == b\<close>: numbers compare by value across \<^verbatim>\<open>bool\<close>, \<^verbatim>\<open>int\<close> and
  \<^verbatim>\<open>float\<close>; every other pair compares structurally. The code only compares strings
  and \<^verbatim>\<open>None\<close>.
\<close>

definition py_eq :: "pyval \<Rightarrow> pyval \<Rightarrow> bool" where
  "py_eq a b = (case (py_num a, py_num b) of (Some x, Some y) \<Rightarrow> x = y | _ \<Rightarrow> a = b)"

definition py_in_list :: "pyval \<Rightarrow> pyval list \<Rightarrow> bool" where
  "py_in_list v xs = list_ex (py_eq v) xs"

subsection \<open>Strings\<close>

text \<open>
  \<^verbatim>\<open>str.lower\<close> on the ASCII letters; bytes of other code points are kept. \<^verbatim>\<open>kw in s\<close>
  on strings is the substring test \<^const>\<open>sublist\<close>.
\<close>

definition lower_char :: "char \<Rightarrow> char" where
  "lower_char c =
     (let n = (of_char c :: nat) in if 65 \<le> n \<and> n \<le> 90 then char_of (n + 32) else c)"

definition lower :: "string \<Rightarrow> string" where
  "lower s = map lower_char s"

definition py_lower :: "pyval \<Rightarrow> pyexc + string" where
  "py_lower v = (case v of PStr s \<Rightarrow> Inr (lower s) | _ \<Rightarrow> Inl (no_attribute v ''lower''))"

section \<open>The fusion and enrichment processor (middleware.py)\<close>

text \<open>
  \<^verbatim>\<open>DataProcessor\<close>. Each method is a function from its arguments to either the
  exception it raises or the value it returns. The calls to the logger are left out.
\<close>

subsection \<open>Per-engine projection\<close>

definition process_scrapy_data :: "pyval \<Rightarrow> pyexc + pyval" where
  "process_scrapy_data data =
     py_bind (py_get data ''pages_crawled'' (PList [])) (\<lambda>pc.
     py_bind (py_len pc) (\<lambda>pages_crawled.
     py_bind (py_get data ''total_links_found'' (PInt 0)) (\<lambda>total_links.
     py_bind (py_get data ''total_forms_found'' (PInt 0)) (\<lambda>total_forms.
     py_bind (py_get data ''total_inputs_found'' (PInt 0)) (\<lambda>total_inputs.
     py_bind (py_get data ''structured_data'' (PDict [])) (\<lambda>structured_data.
     py_bind (py_get data ''depth'' (PInt 1)) (\<lambda>depth.
     py_bind (py_get data ''pages_crawled'' (PList [])) (\<lambda>pc2.
     py_bind (py_slice_to 10 pc2) (\<lambda>pages.
     Inr (PDict
       [(PStr ''pages_crawled'', pages_crawled),
        (PStr ''total_links'', total_links),
        (PStr ''total_forms'', total_forms),
        (PStr ''total_inputs'', total_inputs),
        (PStr ''structured_data'', structured_data),
        (PStr ''depth'', depth),
        (PStr ''pages'', pages)]))))))))))"

definition process_beautifulsoup_data :: "pyval \<Rightarrow> pyexc + pyval" where
  "process_beautifulsoup_data data =
     py_bind (py_get data ''links'' (PDict [])) (\<lambda>links_info.
     py_bind (py_get data ''status_code'' (PInt 0)) (\<lambda>status_code.
     py_bind (py_get links_info ''total'' (PInt 0)) (\<lambda>total_links.
     py_bind (py_get links_info ''internal'' (PInt 0)) (\<lambda>internal_links.
     py_bind (py_get links_info ''external'' (PInt 0)) (\<lambda>external_links.
     py_bind (py_get links_info ''email'' (PInt 0)) (\<lambda>email_links.
     py_bind (py_get data ''forms'' (PList [])) (\<lambda>forms.
     py_bind (py_len forms) (\<lambda>forms_count.
     py_bind (py_get data ''inputs'' (PList [])) (\<lambda>inputs.
     py_bind (py_len inputs) (\<lambda>inputs_count.
     py_bind (py_get data ''page_size'' (PInt 0)) (\<lambda>page_size.
     py_bind (py_truediv page_size 1024) (\<lambda>page_size_kb.
     py_bind (py_get data ''javascript_enabled'' (PBool False)) (\<lambda>has_javascript.
     Inr (PDict
       [(PStr ''status_code'', status_code),
        (PStr ''total_links'', total_links),
        (PStr ''internal_links'', internal_links),
        (PStr ''external_links'', external_links),
        (PStr ''email_links'', email_links),
        (PStr ''forms_count'', forms_count),
        (PStr ''inputs_count'', inputs_count),
        (PStr ''page_size_kb'', page_size_kb),
        (PStr ''has_javascript'', has_javascript)]))))))))))))))"

definition process_browser_data :: "pyval \<Rightarrow> pyexc + pyval" where
  "process_browser_data data =
     py_bind (py_get data ''title'' (PStr [])) (\<lambda>title.
     py_bind (py_get data ''current_url'' (PStr [])) (\<lambda>current_url.
     py_bind (py_get data ''url'' PNone) (\<lambda>u.
     py_bind (py_get data ''current_url'' PNone) (\<lambda>cu.
     py_bind (py_get data ''forms'' (PList [])) (\<lambda>forms.
     py_bind (py_len forms) (\<lambda>forms_count.
     py_bind (py_get data ''inputs'' (PList [])) (\<lambda>inputs.
     py_bind (py_len inputs) (\<lambda>inputs_count.
     py_bind (py_get data ''links'' (PList [])) (\<lambda>links.
     py_bind (py_len links) (\<lambda>links_count.
     py_bind (py_get data ''cookies'' (PDict [])) (\<lambda>cookies.
     py_bind (py_len cookies) (\<lambda>cookies_count.
     py_bind (py_get data ''page_size'' (PInt 0)) (\<lambda>page_size.
     py_bind (py_truediv page_size 1024) (\<lambda>page_size_kb.
     py_bind (py_get data ''javascript_enabled'' (PBool False)) (\<lambda>javascript_enabled.
     py_bind (py_get data ''authenticated'' (PBool False)) (\<lambda>authenticated.
     Inr (PDict
       [(PStr ''title'', title),
        (PStr ''current_url'', current_url),
        (PStr ''redirected'', PBool (\<not> py_eq u cu)),
        (PStr ''forms_count'', forms_count),
        (PStr ''inputs_count'', inputs_count),
        (PStr ''links_count'', links_count),
        (PStr ''cookies_count'', cookies_count),
        (PStr ''page_size_kb'', page_size_kb),
        (PStr ''javascript_enabled'', javascript_enabled),
        (PStr ''authenticated'', authenticated)])))))))))))))))))"

definition process_engine_data :: "pyval \<Rightarrow> pyval \<Rightarrow> pyexc + pyval" where
  "process_engine_data data engine =
     (if py_eq engine (PStr ''scrapy'') then process_scrapy_data data
      else if py_eq engine (PStr ''beautifulsoup'') then process_beautifulsoup_data data
      else if py_in_list engine [PStr ''selenium'', PStr ''playwright'']
        then process_browser_data data
      else Inr data)"

subsection \<open>Derived annotations\<close>

definition sensitive_keywords :: "string list" where
  "sensitive_keywords =
     [''password'', ''pin'', ''secret'', ''token'', ''key'', ''api'',
      ''credit'', ''card'', ''cvv'', ''ssn'', ''auth'']"

text \<open>The loop of \<^verbatim>\<open>_identify_sensitive_fields\<close>; \<open>sensitive\<close> is the list it appends to.\<close>

fun identify_loop :: "pyval list \<Rightarrow> pyval list \<Rightarrow> pyexc + pyval list" where
  "identify_loop [] sensitive = Inr sensitive"
| "identify_loop (inp # rest) sensitive =
     py_bind (py_get inp ''name'' (PStr [])) (\<lambda>n.
     py_bind (py_lower n) (\<lambda>name.
     py_bind (py_get inp ''type'' (PStr [])) (\<lambda>t.
     py_bind (py_lower t) (\<lambda>inp_type.
       identify_loop rest
         (if list_ex (\<lambda>kw. sublist kw name \<or> sublist kw inp_type) sensitive_keywords
          then sensitive @ [inp] else sensitive)))))"

definition identify_sensitive_fields :: "pyval \<Rightarrow> pyexc + pyval" where
  "identify_sensitive_fields crawl_data =
     py_bind (py_get crawl_data ''inputs'' (PList [])) (\<lambda>inputs.
     py_bind (py_iter inputs) (\<lambda>inps.
     py_bind (identify_loop inps []) (\<lambda>sensitive.
     Inr (PList sensitive))))"

text \<open>
  The loop of \<^verbatim>\<open>_categorize_inputs\<close>. The dictionary it fills maps a lower-cased type
  to its count; an existing key keeps its position, a new one goes to the end.
\<close>

fun categorize_loop :: "pyval list \<Rightarrow> (string \<times> int) list \<Rightarrow> pyexc + (string \<times> int) list" where
  "categorize_loop [] categorized = Inr categorized"
| "categorize_loop (inp # rest) categorized =
     py_bind (py_get inp ''type'' (PStr ''unknown'')) (\<lambda>t.
     py_bind (py_lower t) (\<lambda>inp_type.
       categorize_loop rest
         (AList.update inp_type
            ((case map_of categorized inp_type of None \<Rightarrow> 0 | Some c \<Rightarrow> c) + 1)
            categorized)))"

definition categorize_inputs :: "pyval \<Rightarrow> pyexc + pyval" where
  "categorize_inputs inputs =
     py_bind (py_iter inputs) (\<lambda>inps.
     py_bind (categorize_loop inps []) (\<lambda>categorized.
     Inr (PDict (map (\<lambda>(k, c). (PStr k, PInt c)) categorized))))"

text \<open>
  The fields of the network summary that \<^verbatim>\<open>_enrich_data\<close> and
  \<^verbatim>\<open>_prepare_for_vulnerability_scan\<close> copy; \<open>summary_get\<close> is
  \<^verbatim>\<open>network_data.get('summary', {}).get(k, d)\<close> and \<open>target_info_get\<close> is
  \<^verbatim>\<open>network_data.get('summary', {}).get('target_info', {}).get(k, d)\<close>.
\<close>

definition summary_get :: "pyval \<Rightarrow> string \<Rightarrow> pyval \<Rightarrow> pyexc + pyval" where
  "summary_get network_data k d =
     py_bind (py_get network_data ''summary'' (PDict [])) (\<lambda>summary. py_get summary k d)"

definition target_info_get :: "pyval \<Rightarrow> string \<Rightarrow> pyval \<Rightarrow> pyexc + pyval" where
  "target_info_get network_data k d =
     py_bind (summary_get network_data ''target_info'' (PDict [])) (\<lambda>ti. py_get ti k d)"

definition enrich_data :: "pyval \<Rightarrow> pyval \<Rightarrow> pyexc + pyval" where
  "enrich_data crawl_data network_data =
     py_bind (py_get crawl_data ''forms'' (PList [])) (\<lambda>forms.
     py_bind (py_len forms) (\<lambda>form_count.
     py_bind (py_get crawl_data ''inputs'' (PList [])) (\<lambda>inputs.
     py_bind (categorize_inputs inputs) (\<lambda>input_types.
     py_bind (identify_sensitive_fields crawl_data) (\<lambda>sensitive_fields.
     py_bind
       (if py_truthy network_data then
          py_bind (target_info_get network_data ''ip_addresses'' (PList [])) (\<lambda>ip_addresses.
          py_bind (target_info_get network_data ''reachable'' (PBool False)) (\<lambda>reachable.
          py_bind (summary_get network_data ''open_ports'' (PList [])) (\<lambda>open_ports.
          py_bind (summary_get network_data ''services'' (PDict [])) (\<lambda>services.
          Inr (PDict
            [(PStr ''ip_addresses'', ip_addresses),
             (PStr ''reachable'', reachable),
             (PStr ''open_ports'', open_ports),
             (PStr ''services'', services)])))))
        else Inr (PDict [])) (\<lambda>network_info.
     Inr (PDict
       [(PStr ''form_count'', form_count),
        (PStr ''input_types'', input_types),
        (PStr ''sensitive_fields'', sensitive_fields),
        (PStr ''network_info'', network_info)])))))))"

definition text_like_types :: "pyval list" where
  "text_like_types = [PStr ''text'', PStr ''email'', PStr ''number'', PStr ''search'', PStr ''url'']"

text \<open>
  The loop at the end of \<^verbatim>\<open>_prepare_for_vulnerability_scan\<close>; \<open>params\<close> is
  \<^verbatim>\<open>vuln_data['injectable_parameters']\<close>.
\<close>

fun injectable_loop :: "pyval list \<Rightarrow> pyval list \<Rightarrow> pyexc + pyval list" where
  "injectable_loop [] params = Inr params"
| "injectable_loop (inp # rest) params =
     py_bind (py_get inp ''type'' PNone) (\<lambda>t.
       if py_in_list t text_like_types
       then py_bind (py_get inp ''name'' (PStr [])) (\<lambda>n. injectable_loop rest (params @ [n]))
       else injectable_loop rest params)"

definition prepare_for_vulnerability_scan :: "pyval \<Rightarrow> pyval \<Rightarrow> pyexc + pyval" where
  "prepare_for_vulnerability_scan crawl_data network_data =
     py_bind (py_get crawl_data ''url'' (PStr [])) (\<lambda>url.
     py_bind (py_get crawl_data ''title'' (PStr [])) (\<lambda>title.
     py_bind (py_get crawl_data ''forms'' (PList [])) (\<lambda>forms.
     py_bind (py_get crawl_data ''inputs'' (PList [])) (\<lambda>inputs.
     py_bind (py_get crawl_data ''links'' (PList [])) (\<lambda>links.
     py_bind (py_get crawl_data ''authenticated'' (PBool False)) (\<lambda>authentication_required.
     py_bind
       (if py_truthy network_data then
          py_bind (target_info_get network_data ''ip_addresses'' (PList [])) (\<lambda>ip_addresses.
          py_bind (summary_get network_data ''open_ports'' (PList [])) (\<lambda>open_ports.
          py_bind (summary_get network_data ''services'' (PDict [])) (\<lambda>services.
          py_bind (summary_get network_data ''network_accessible'' (PBool False)) (\<lambda>accessible.
          Inr (PDict
            [(PStr ''ip_addresses'', ip_addresses),
             (PStr ''open_ports'', open_ports),
             (PStr ''services'', services),
             (PStr ''network_accessible'', accessible)])))))
        else Inr (PDict [])) (\<lambda>network_context.
     py_bind (py_get crawl_data ''inputs'' (PList [])) (\<lambda>inputs2.
     py_bind (py_iter inputs2) (\<lambda>inps.
     py_bind (injectable_loop inps []) (\<lambda>injectable_parameters.
     Inr (PDict
       [(PStr ''target'', PDict
           [(PStr ''url'', url),
            (PStr ''title'', title),
            (PStr ''forms'', forms),
            (PStr ''inputs'', inputs),
            (PStr ''links'', links)]),
        (PStr ''network_context'', network_context),
        (PStr ''injectable_parameters'', PList injectable_parameters),
        (PStr ''authentication_required'', authentication_required)])))))))))))"

subsection \<open>The entry point\<close>

text \<open>
  \<^verbatim>\<open>process_crawl_data\<close>. \<open>network_data\<close> is \<^const>\<open>PNone\<close> when the caller passes
  none. Any exception raised inside is caught and turned into the failure record.
\<close>

definition process_crawl_data_body :: "pyval \<Rightarrow> pyval \<Rightarrow> pyexc + pyval" where
  "process_crawl_data_body crawl_result network_data =
     py_bind (py_get crawl_result ''success'' PNone) (\<lambda>success.
       if \<not> py_truthy success then
         py_bind (py_get crawl_result ''error'' PNone) (\<lambda>err.
         Inr (PDict [(PStr ''success'', PBool False), (PStr ''error'', err)]))
       else
         py_bind (py_get crawl_result ''data'' (PDict [])) (\<lambda>data.
         py_bind (py_get data ''engine'' (PStr ''unknown'')) (\<lambda>engine.
         py_bind (py_get data ''url'' (PStr [])) (\<lambda>target_url.
         py_bind (process_engine_data data engine) (\<lambda>crawl_data.
         py_bind (enrich_data data network_data) (\<lambda>enriched_data.
         py_bind (prepare_for_vulnerability_scan data network_data) (\<lambda>ready.
         Inr (PDict
           [(PStr ''source_engine'', engine),
            (PStr ''target_url'', target_url),
            (PStr ''crawl_data'', crawl_data),
            (PStr ''network_data'', if py_truthy network_data then network_data else PDict []),
            (PStr ''enriched_data'', enriched_data),
            (PStr ''vulnerability_scan_ready'', ready)]))))))))"

definition process_crawl_data :: "pyval \<Rightarrow> pyval \<Rightarrow> pyval" where
  "process_crawl_data crawl_result network_data =
     (case process_crawl_data_body crawl_result network_data of
        Inr processed \<Rightarrow> processed
      | Inl e \<Rightarrow> PDict [(PStr ''success'', PBool False), (PStr ''error'', PStr (exc_str e))])"

subsection \<open>Reading a descriptor\<close>







section \<open>The network scanner (network_scanner.py)\<close>

subsection \<open>The outside world and the libraries\<close>




text \<open>
  The regular expressions of the scanner: \<^verbatim>\<open>time=(\d+\.?\d*)\s*ms\<close>,
  \<^verbatim>\<open>time[<=]+(\d+)ms\<close>, \<^verbatim>\<open>\d+\s+\<close> and \<^verbatim>\<open>(\d+)/\<close>.
\<close>

datatype regex = TimeUnix | TimeWindows | HopNumber | PortSlash

text \<open>
  The library functions the code calls, taken as they are. \<open>urlparse u\<close> is the pair
  of \<^verbatim>\<open>urlparse(u).scheme\<close> and \<^verbatim>\<open>urlparse(u).netloc\<close>, and \<open>urljoin\<close> is
  \<^verbatim>\<open>urljoin\<close>; both raise \<^verbatim>\<open>ValueError\<close> on some malformed URLs. \<open>re_findall\<close> gives
  the groups that \<^verbatim>\<open>re.findall\<close> returns; \<open>re_search\<close> gives the first group of the
  match of \<^verbatim>\<open>re.search\<close> (the match itself for a pattern without a group), if there is
  one; \<open>py_int\<close> is \<^verbatim>\<open>int\<close> on a string. \<open>list_set xs\<close> is \<^verbatim>\<open>list(set(xs))\<close>,
  the distinct elements of \<open>xs\<close> in the order in which the set iterates.
\<close>

record pylib =
  urlparse :: "string \<Rightarrow> pyexc + (string \<times> string)"
  urljoin :: "string \<Rightarrow> string \<Rightarrow> pyexc + string"
  re_findall :: "regex \<Rightarrow> string \<Rightarrow> string list"
  re_search :: "regex \<Rightarrow> string \<Rightarrow> string option"
  py_int :: "string \<Rightarrow> pyexc + int"
  list_set :: "string list \<Rightarrow> string list"

definition urlparse_netloc :: "pylib \<Rightarrow> string \<Rightarrow> pyexc + string" where
  "urlparse_netloc lib u = py_bind (urlparse lib u) (\<lambda>(scheme, netloc). Inr netloc)"

definition urlparse_scheme :: "pylib \<Rightarrow> string \<Rightarrow> pyexc + string" where
  "urlparse_scheme lib u = py_bind (urlparse lib u) (\<lambda>(scheme, netloc). Inr scheme)"

subsection \<open>String methods\<close>





definition str_list :: "string list \<Rightarrow> pyval" where
  "str_list xs = PList (map PStr xs)"

subsection \<open>The probes\<close>













subsection \<open>The summary\<close>







subsection \<open>The aggregator\<close>



subsection \<open>Sample libraries and worlds\<close>

text \<open>
  A library that agrees with \<^verbatim>\<open>urllib.parse\<close>, \<^verbatim>\<open>re\<close>, \<^verbatim>\<open>int\<close> and the
  set type on the inputs of the examples below: URLs of the form
  \<^verbatim>\<open>http://host/path\<close> with a plain host name, hrefs that are such URLs, absolute
  paths or start with \<^verbatim>\<open>//\<close>, joined with the base \<^verbatim>\<open>http://a.test/\<close>, a netloc with
  an unmatched bracket, for which \<^verbatim>\<open>urlparse\<close> and \<^verbatim>\<open>urljoin\<close> raise
  \<^verbatim>\<open>ValueError\<close>, and one line of ping output that holds one time.
\<close>

definition sample_netloc :: "string \<Rightarrow> string" where
  "sample_netloc rest = takeWhile (\<lambda>c. c \<notin> set ''/?#'') rest"

definition sample_urlparse :: "string \<Rightarrow> pyexc + (string \<times> string)" where
  "sample_urlparse u =
     (let (scheme, rest) =
            (if prefix ''http://'' u then (''http'', drop 7 u)
             else if prefix ''https://'' u then (''https'', drop 8 u)
             else ([], []));
          netloc = sample_netloc rest
      in if (CHR ''['' \<in> set netloc) \<noteq> (CHR '']'' \<in> set netloc)
         then Inl (ValueError ''Invalid IPv6 URL'')
         else Inr (scheme, netloc))"

definition sample_urljoin :: "string \<Rightarrow> string \<Rightarrow> pyexc + string" where
  "sample_urljoin base href =
     (if href = [] then Inr base
      else if prefix ''//'' href then
        (if (CHR ''['' \<in> set (sample_netloc (drop 2 href)))
              \<noteq> (CHR '']'' \<in> set (sample_netloc (drop 2 href)))
         then Inl (ValueError ''Invalid IPv6 URL'')
         else Inr (''http:'' @ href))
      else if prefix ''http://'' href \<or> prefix ''https://'' href then Inr href
      else if prefix ''/'' href then Inr (''http://a.test'' @ href)
      else Inr (base @ href))"

definition sample_lib :: pylib where
  "sample_lib =
     \<lparr> urlparse = sample_urlparse,
       urljoin = sample_urljoin,
       re_findall = (\<lambda>r s. if r = TimeUnix \<and> s = ''64 bytes from a.test: icmp_seq=1 time=0.5 ms''
                             then [''0.5''] else []),
       re_search = (\<lambda>r s. if r = PortSlash \<and> s = ''80/tcp open http'' then Some ''80'' else None),
       py_int = (\<lambda>s. if s = ''80'' then Inr 80 else Inr 0),
       list_set = remdups \<rparr>"



section \<open>The crawl engines\<close>

subsection \<open>Parsed pages and the web\<close>

text \<open>
  What the engines read from a parsed document: the \<^verbatim>\<open>href\<close> of every anchor that
  has one, in document order, and the values of the other extractors (title, forms,
  inputs, heading counts, meta tags, word count, structured data), which query the
  document and nothing else.
\<close>

record soup =
  soup_title :: pyval
  soup_hrefs :: "string list"
  soup_forms :: "pyval list"
  soup_inputs :: "pyval list"
  soup_headers :: pyval
  soup_meta_tags :: pyval
  soup_word_count :: nat
  soup_structured_data :: pyval

text \<open>
  What \<^verbatim>\<open>session.get\<close> does with a URL: a response with its status code, the message
  of the \<^verbatim>\<open>HTTPError\<close> that \<^verbatim>\<open>raise_for_status\<close> raises when the code is an error
  code, and its parsed content; or an exception. The web is fixed during a crawl.
\<close>

datatype http_outcome =
    Response int string soup
  | RequestError string

type_synonym web = "string \<Rightarrow> http_outcome"

subsection \<open>The static-HTML engine (beautifulsoup_crawler.py)\<close>

text \<open>
  The loop of \<^verbatim>\<open>_extract_links\<close> over the anchors. The state is the three lists
  \<open>internal_links\<close>, \<open>external_links\<close> and \<open>email_links\<close>.
\<close>

fun classify_links ::
  "pylib \<Rightarrow> string \<Rightarrow> string \<Rightarrow> string list \<Rightarrow> string list \<times> string list \<times> string list
     \<Rightarrow> pyexc + string list \<times> string list \<times> string list" where
  "classify_links lib base_url base_domain [] acc = Inr acc"
| "classify_links lib base_url base_domain (href # rest) (internal_links, external_links, email_links) =
     (if prefix ''mailto:'' href then
        classify_links lib base_url base_domain rest
          (internal_links, external_links, email_links @ [href])
      else if prefix ''javascript:'' href then
        classify_links lib base_url base_domain rest (internal_links, external_links, email_links)
      else if prefix ''http'' href then
        (if sublist base_domain href then
           classify_links lib base_url base_domain rest
             (internal_links @ [href], external_links, email_links)
         else
           classify_links lib base_url base_domain rest
             (internal_links, external_links @ [href], email_links))
      else
        py_bind (urljoin lib base_url href) (\<lambda>resolved.
          classify_links lib base_url base_domain rest
            (internal_links @ [resolved], external_links, email_links)))"

text \<open>The body of the \<^verbatim>\<open>try\<close> block, up to the \<^verbatim>\<open>return\<close>.\<close>

definition classified_links ::
  "pylib \<Rightarrow> soup \<Rightarrow> string \<Rightarrow> pyexc + string list \<times> string list \<times> string list" where
  "classified_links lib sp base_url =
     py_bind (urlparse_netloc lib base_url) (\<lambda>base_domain.
       classify_links lib base_url base_domain (soup_hrefs sp) ([], [], []))"

text \<open>
  \<^verbatim>\<open>_extract_links\<close>. \<^verbatim>\<open>len(set(xs))\<close> is the number of distinct elements of
  \<open>xs\<close>. On any exception the handler returns the three zero counts.
\<close>

definition extract_links :: "pylib \<Rightarrow> soup \<Rightarrow> string \<Rightarrow> pyval" where
  "extract_links lib sp base_url =
     (case classified_links lib sp base_url of
        Inr (internal_links, external_links, email_links) \<Rightarrow> PDict
          [(PStr ''total'', PInt (int (length internal_links) + int (length external_links))),
           (PStr ''internal'', PInt (int (length (remdups internal_links)))),
           (PStr ''external'', PInt (int (length (remdups external_links)))),
           (PStr ''email'', PInt (int (length email_links))),
           (PStr ''internal_links'', str_list (take 50 (list_set lib internal_links))),
           (PStr ''external_links'', str_list (take 50 (list_set lib external_links))),
           (PStr ''email_links'', str_list email_links)]
      | Inl e \<Rightarrow> PDict
          [(PStr ''total'', PInt 0), (PStr ''internal'', PInt 0), (PStr ''external'', PInt 0)])"

subsection \<open>The depth-limited engine (scrapy_crawler.py)\<close>

text \<open>The loop of \<^verbatim>\<open>_extract_crawlable_links\<close>.\<close>

fun crawlable_loop :: "pylib \<Rightarrow> string \<Rightarrow> string list \<Rightarrow> string list \<Rightarrow> pyexc + string list" where
  "crawlable_loop lib base_url [] links = Inr links"
| "crawlable_loop lib base_url (href # rest) links =
     (if \<not> (prefix ''mailto:'' href \<or> prefix ''javascript:'' href \<or> prefix ''#'' href) then
        py_bind (urljoin lib base_url href) (\<lambda>full_url.
        py_bind (urlparse_scheme lib full_url) (\<lambda>scheme.
          if scheme \<in> set [''http'', ''https'']
          then crawlable_loop lib base_url rest (links @ [full_url])
          else crawlable_loop lib base_url rest links))
      else crawlable_loop lib base_url rest links)"

definition extract_crawlable_links :: "pylib \<Rightarrow> soup \<Rightarrow> string \<Rightarrow> pyexc + string list" where
  "extract_crawlable_links lib sp base_url = crawlable_loop lib base_url (soup_hrefs sp) []"

text \<open>The loop of \<^verbatim>\<open>_extract_links_from_soup\<close>.\<close>

fun page_links_loop :: "pylib \<Rightarrow> string \<Rightarrow> string list \<Rightarrow> string list \<Rightarrow> pyexc + string list" where
  "page_links_loop lib base_url [] links = Inr links"
| "page_links_loop lib base_url (href # rest) links =
     (if href \<noteq> [] \<and> \<not> (prefix ''mailto:'' href \<or> prefix ''javascript:'' href) then
        py_bind (urljoin lib base_url href) (\<lambda>full_url.
          page_links_loop lib base_url rest (links @ [full_url]))
      else page_links_loop lib base_url rest links)"

definition extract_links_from_soup :: "pylib \<Rightarrow> soup \<Rightarrow> string \<Rightarrow> pyexc + string list" where
  "extract_links_from_soup lib sp base_url =
     py_bind (page_links_loop lib base_url (soup_hrefs sp) []) (\<lambda>links. Inr (list_set lib links))"

definition parse_page :: "pylib \<Rightarrow> string \<Rightarrow> soup \<Rightarrow> pyexc + pyval" where
  "parse_page lib url sp =
     py_bind (extract_links_from_soup lib sp url) (\<lambda>links.
     Inr (PDict
       [(PStr ''url'', PStr url),
        (PStr ''title'', soup_title sp),
        (PStr ''links'', str_list links),
        (PStr ''forms'', PList (soup_forms sp)),
        (PStr ''inputs'', PList (soup_inputs sp)),
        (PStr ''headers'', soup_headers sp),
        (PStr ''meta_tags'', soup_meta_tags sp),
        (PStr ''word_count'', PInt (int (soup_word_count sp)))]))"

text \<open>
  The engine object. \<^verbatim>\<open>__init__\<close> creates \<^verbatim>\<open>visited_urls\<close> empty; no method
  empties it afterwards.
\<close>

record scrapy_engine =
  visited_urls :: "string set"

definition new_engine :: scrapy_engine where
  "new_engine = \<lparr> visited_urls = {} \<rparr>"

text \<open>
  The loop of \<^verbatim>\<open>_crawl_depth\<close>. The state is the list \<open>crawled_pages\<close>, the set
  \<^verbatim>\<open>self.visited_urls\<close>, and the URLs requested so far, in order. An exception of
  \<^verbatim>\<open>urlparse\<close> in the condition leaves the loop with the state reached; an exception
  of the request or of the parsing of the page is absorbed by the inner handler.
\<close>

fun crawl_depth_loop ::
  "pylib \<Rightarrow> web \<Rightarrow> string \<Rightarrow> string list \<Rightarrow> pyval list \<Rightarrow> string set \<Rightarrow> string list
     \<Rightarrow> (pyexc + pyval list) \<times> string set \<times> string list" where
  "crawl_depth_loop lib web base_domain [] crawled_pages visited requested =
     (Inr crawled_pages, visited, requested)"
| "crawl_depth_loop lib web base_domain (link # rest) crawled_pages visited requested =
     (if link \<in> visited then
        crawl_depth_loop lib web base_domain rest crawled_pages visited requested
      else case urlparse_netloc lib link of
        Inl e \<Rightarrow> (Inl e, visited, requested)
      | Inr netloc \<Rightarrow>
          if netloc \<noteq> base_domain then
            crawl_depth_loop lib web base_domain rest crawled_pages visited requested
          else
            (case web link of
               Response status_code msg sp \<Rightarrow>
                 if status_code = 200 then
                   (case parse_page lib link sp of
                      Inr page_data \<Rightarrow>
                        crawl_depth_loop lib web base_domain rest (crawled_pages @ [page_data])
                          (insert link visited) (requested @ [link])
                    | Inl e \<Rightarrow>
                        crawl_depth_loop lib web base_domain rest crawled_pages
                          (insert link visited) (requested @ [link]))
                 else
                   crawl_depth_loop lib web base_domain rest crawled_pages
                     (insert link visited) (requested @ [link])
             | RequestError msg \<Rightarrow>
                 crawl_depth_loop lib web base_domain rest crawled_pages
                   (insert link visited) (requested @ [link])))"

text \<open>
  \<^verbatim>\<open>_crawl_depth\<close>: the first five links only. The result is the outcome, the engine
  after the call and the URLs requested. The executor it creates is never used, and the
  parameter \<open>depth\<close> is not read.
\<close>

definition crawl_depth ::
  "pylib \<Rightarrow> web \<Rightarrow> scrapy_engine \<Rightarrow> string list \<Rightarrow> string \<Rightarrow> int
     \<Rightarrow> (pyexc + pyval list) \<times> scrapy_engine \<times> string list" where
  "crawl_depth lib web self links base_url depth =
     (case urlparse_netloc lib base_url of
        Inl e \<Rightarrow> (Inl e, self, [])
      | Inr base_domain \<Rightarrow>
          (case crawl_depth_loop lib web base_domain (take 5 links) [] (visited_urls self) [] of
             (r, visited, requested) \<Rightarrow> (r, self\<lparr>visited_urls := visited\<rparr>, requested)))"

text \<open>\<^verbatim>\<open>sum(len(page.get(k, [])) for page in pages)\<close>.\<close>

fun sum_len :: "string \<Rightarrow> pyval list \<Rightarrow> pyexc + int" where
  "sum_len k [] = Inr 0"
| "sum_len k (page # rest) =
     py_bind (py_get page k (PList [])) (\<lambda>v.
     py_bind (py_len_int v) (\<lambda>n.
     py_bind (sum_len k rest) (\<lambda>m. Inr (n + m))))"

definition crawl_results :: "string \<Rightarrow> int \<Rightarrow> int \<Rightarrow> soup \<Rightarrow> pyval list \<Rightarrow> pyexc + pyval" where
  "crawl_results url max_depth status_code sp pages_crawled =
     py_bind (sum_len ''links'' pages_crawled) (\<lambda>total_links_found.
     py_bind (sum_len ''forms'' pages_crawled) (\<lambda>total_forms_found.
     py_bind (sum_len ''inputs'' pages_crawled) (\<lambda>total_inputs_found.
     Inr (PDict
       [(PStr ''success'', PBool True),
        (PStr ''data'', PDict
           [(PStr ''engine'', PStr ''scrapy''),
            (PStr ''url'', PStr url),
            (PStr ''depth'', PInt max_depth),
            (PStr ''status_code'', PInt status_code),
            (PStr ''pages_crawled'', PList pages_crawled),
            (PStr ''total_links_found'', PInt total_links_found),
            (PStr ''total_forms_found'', PInt total_forms_found),
            (PStr ''total_inputs_found'', PInt total_inputs_found),
            (PStr ''structured_data'', soup_structured_data sp)])]))))"

text \<open>
  The body of \<^verbatim>\<open>crawl\<close>: the outcome, the engine after the call, and the URLs requested
  in order, the seed first.
\<close>

definition crawl_body ::
  "pylib \<Rightarrow> web \<Rightarrow> scrapy_engine \<Rightarrow> string \<Rightarrow> int
     \<Rightarrow> (pyexc + pyval) \<times> scrapy_engine \<times> string list" where
  "crawl_body lib web self url max_depth =
     (case web url of
        RequestError msg \<Rightarrow> (Inl (RequestException msg), self, [url])
      | Response status_code msg sp \<Rightarrow>
          if 400 \<le> status_code \<and> status_code < 600 then (Inl (HTTPError msg), self, [url])
          else (case parse_page lib url sp of
             Inl e \<Rightarrow> (Inl e, self, [url])
           | Inr page \<Rightarrow>
               if max_depth > 1 then
                 (case extract_crawlable_links lib sp url of
                    Inl e \<Rightarrow> (Inl e, self, [url])
                  | Inr links \<Rightarrow>
                      (case crawl_depth lib web self links url (max_depth - 1) of
                         (Inl e, self', requested) \<Rightarrow> (Inl e, self', url # requested)
                       | (Inr crawled_pages, self', requested) \<Rightarrow>
                           (crawl_results url max_depth status_code sp (page # crawled_pages),
                            self', url # requested)))
               else (crawl_results url max_depth status_code sp [page], self, [url])))"

text \<open>\<^verbatim>\<open>crawl\<close>: an exception raised inside is turned into the failure record.\<close>

definition crawl ::
  "pylib \<Rightarrow> web \<Rightarrow> scrapy_engine \<Rightarrow> string \<Rightarrow> int \<Rightarrow> pyval \<times> scrapy_engine \<times> string list" where
  "crawl lib web self url max_depth =
     (case crawl_body lib web self url max_depth of
        (Inr result, self', requested) \<Rightarrow> (result, self', requested)
      | (Inl e, self', requested) \<Rightarrow>
          (PDict [(PStr ''success'', PBool False), (PStr ''error'', PStr (exc_str e))],
           self', requested))"

subsection \<open>Sample pages and webs\<close>

text \<open>A page with the given anchors and nothing else.\<close>

definition page_with_links :: "string list \<Rightarrow> soup" where
  "page_with_links hrefs =
     \<lparr> soup_title = PStr ''t'', soup_hrefs = hrefs, soup_forms = [], soup_inputs = [],
       soup_headers = PDict [], soup_meta_tags = PDict [], soup_word_count = 0,
       soup_structured_data = PDict
         [(PStr ''json_ld'', PList []), (PStr ''microdata'', PList []),
          (PStr ''og_tags'', PDict [])] \<rparr>"

text \<open>
  A site whose seed page \<^verbatim>\<open>http://a.test/\<close> links to eight pages of the same host;
  every other URL of the host is a page without links.
\<close>

definition eight_links_web :: web where
  "eight_links_web url =
     (if url = ''http://a.test/'' then
        Response 200 [] (page_with_links
          [''/p1'', ''/p2'', ''/p3'', ''/p4'', ''/p5'', ''/p6'', ''/p7'', ''/p8''])
      else if prefix ''http://a.test/'' url then Response 200 [] (page_with_links [])
      else RequestError ''Connection failed'')"

text \<open>The same site, with the seed page linking to itself first and to seven other pages.\<close>

definition self_link_web :: web where
  "self_link_web url =
     (if url = ''http://a.test/'' then
        Response 200 [] (page_with_links
          [''/'', ''/p1'', ''/p2'', ''/p3'', ''/p4'', ''/p5'', ''/p6'', ''/p7''])
      else if prefix ''http://a.test/'' url then Response 200 [] (page_with_links [])
      else RequestError ''Connection failed'')"

section \<open>Verified properties\<close>

subsection \<open>Basic facts about the Python operations\<close>

lemma py_bind_Inr_iff: "py_bind m f = Inr v \<longleftrightarrow> (\<exists>x. m = Inr x \<and> f x = Inr v)"
  by (cases m) (simp_all add: py_bind_def)



subsection \<open>Injectable parameters\<close>





subsection \<open>Sensitive fields\<close>










subsection \<open>Per-engine projection\<close>














subsection \<open>The accessibility verdict\<close>










subsection \<open>A scan without the port scanner\<close>










subsection \<open>Links of the static-HTML engine\<close>

lemma classify_links_Inr:
  assumes "classify_links lib base_url base_domain hrefs (i, e, m) = Inr (i', e', m')"
  shows "\<exists>resolve.
      i' = i @ map resolve
             (filter (\<lambda>h. \<not> prefix ''mailto:'' h \<and> \<not> prefix ''javascript:'' h
                        \<and> \<not> (prefix ''http'' h \<and> \<not> sublist base_domain h)) hrefs)
    \<and> e' = e @ filter (\<lambda>h. \<not> prefix ''mailto:'' h \<and> \<not> prefix ''javascript:'' h
                        \<and> prefix ''http'' h \<and> \<not> sublist base_domain h) hrefs
    \<and> m' = m @ filter (prefix ''mailto:'') hrefs"
proof -
  define resolve where
    "resolve h = (if prefix ''http'' h then h
                  else case urljoin lib base_url h of Inr r \<Rightarrow> r | Inl _ \<Rightarrow> h)" for h
  have "i' = i @ map resolve
             (filter (\<lambda>h. \<not> prefix ''mailto:'' h \<and> \<not> prefix ''javascript:'' h
                        \<and> \<not> (prefix ''http'' h \<and> \<not> sublist base_domain h)) hrefs)
    \<and> e' = e @ filter (\<lambda>h. \<not> prefix ''mailto:'' h \<and> \<not> prefix ''javascript:'' h
                        \<and> prefix ''http'' h \<and> \<not> sublist base_domain h) hrefs
    \<and> m' = m @ filter (prefix ''mailto:'') hrefs"
    using assms
  proof (induction hrefs arbitrary: i e m)
    case Nil
    then show ?case by simp
  next
    case (Cons h rest)
    show ?case
    proof (cases "prefix ''mailto:'' h")
      case True
      with Cons.prems have "classify_links lib base_url base_domain rest (i, e, m @ [h])
          = Inr (i', e', m')" by simp
      from Cons.IH [OF this] True show ?thesis by simp
    next
      case nm: False
      show ?thesis
      proof (cases "prefix ''javascript:'' h")
        case True
        with nm Cons.prems have "classify_links lib base_url base_domain rest (i, e, m)
            = Inr (i', e', m')" by simp
        from Cons.IH [OF this] True nm show ?thesis by simp
      next
        case nj: False
        show ?thesis
        proof (cases "prefix ''http'' h")
          case True
          show ?thesis
          proof (cases "sublist base_domain h")
            case s: True
            with nm nj True Cons.prems
            have "classify_links lib base_url base_domain rest (i @ [h], e, m)
                = Inr (i', e', m')" by simp
            from Cons.IH [OF this] True nm nj s show ?thesis by (simp add: resolve_def)
          next
            case s: False
            with nm nj True Cons.prems
            have "classify_links lib base_url base_domain rest (i, e @ [h], m)
                = Inr (i', e', m')" by simp
            from Cons.IH [OF this] True nm nj s show ?thesis by simp
          qed
        next
          case nh: False
          with nm nj Cons.prems obtain r where r: "urljoin lib base_url h = Inr r"
            and "classify_links lib base_url base_domain rest (i @ [r], e, m) = Inr (i', e', m')"
            by (auto simp: py_bind_Inr_iff)
          from Cons.IH [OF this(2)] nh nm nj r show ?thesis by (simp add: resolve_def)
        qed
      qed
    qed
  qed
  then show ?thesis by blast
qed

text \<open>
  The parts of claim C3 that the code keeps: the email bucket holds exactly the
  \<^verbatim>\<open>mailto:\<close> hrefs, and the internal and external lists together hold one entry for
  every href that starts with neither \<^verbatim>\<open>mailto:\<close> nor \<^verbatim>\<open>javascript:\<close>.
\<close>

lemma email_and_script_links_apart:
  assumes "classified_links lib sp base_url = Inr (internal_links, external_links, email_links)"
  shows "email_links = filter (prefix ''mailto:'') (soup_hrefs sp)
     \<and> length internal_links + length external_links
         = length (filter (\<lambda>h. \<not> prefix ''mailto:'' h \<and> \<not> prefix ''javascript:'' h)
                     (soup_hrefs sp))"
proof -
  from assms obtain base_domain where
    cl: "classify_links lib base_url base_domain (soup_hrefs sp) ([], [], [])
           = Inr (internal_links, external_links, email_links)"
    by (auto simp: classified_links_def py_bind_Inr_iff)
  let ?keep = "\<lambda>h. \<not> prefix ''mailto:'' h \<and> \<not> prefix ''javascript:'' h"
  let ?ext = "\<lambda>h. prefix ''http'' h \<and> \<not> sublist base_domain h"
  from classify_links_Inr [OF cl] obtain resolve where
      il: "internal_links = map resolve (filter (\<lambda>h. ?keep h \<and> \<not> ?ext h) (soup_hrefs sp))"
    and el: "external_links = filter (\<lambda>h. ?keep h \<and> ?ext h) (soup_hrefs sp)"
    and ml: "email_links = filter (prefix ''mailto:'') (soup_hrefs sp)"
    by auto
  have "length (filter (\<lambda>h. ?keep h \<and> \<not> ?ext h) xs) + length (filter (\<lambda>h. ?keep h \<and> ?ext h) xs)
      = length (filter ?keep xs)" for xs
    by (induction xs) auto
  with il el ml show ?thesis by simp
qed

lemma distinct_filter_split:
  "distinct (filter (\<lambda>x. P x \<and> Q x) xs) \<Longrightarrow> distinct (filter (\<lambda>x. P x \<and> \<not> Q x) xs)
     \<Longrightarrow> distinct (filter P xs)"
  by (induction xs) (auto split: if_splits)

lemma remdups_shorter: "\<not> distinct xs \<Longrightarrow> length (remdups xs) < length xs"
  by (metis length_remdups_eq length_remdups_leq order.not_eq_order_implies_strict
        remdups_id_iff_distinct)

text \<open>
  Claim C10, as amended. In the link summary of the static-HTML engine, \<^verbatim>\<open>total\<close> is
  the length of the internal and external lists before deduplication and
  \<^verbatim>\<open>internal\<close> and \<^verbatim>\<open>external\<close> count distinct elements, so
  \<^verbatim>\<open>total >= internal + external\<close> for every page. The inequality is strict whenever
  the extraction completes without an exception and the page repeats an href that starts
  with neither \<^verbatim>\<open>mailto:\<close> nor \<^verbatim>\<open>javascript:\<close>, that is, an internal or external one.
\<close>

theorem link_total_bounds_distinct_counts:
  "\<exists>t i e.
      py_get (extract_links lib sp base_url) ''total'' PNone = Inr (PInt t)
    \<and> py_get (extract_links lib sp base_url) ''internal'' PNone = Inr (PInt i)
    \<and> py_get (extract_links lib sp base_url) ''external'' PNone = Inr (PInt e)
    \<and> i + e \<le> t
    \<and> ((\<exists>lists. classified_links lib sp base_url = Inr lists)
         \<and> \<not> distinct (filter (\<lambda>h. \<not> prefix ''mailto:'' h \<and> \<not> prefix ''javascript:'' h)
                          (soup_hrefs sp))
       \<longrightarrow> i + e < t)"
proof (cases "classified_links lib sp base_url")
  case (Inl ex)
  then show ?thesis by (simp add: extract_links_def py_get_def)
next
  case (Inr lists)
  obtain il el ml where lists: "lists = (il, el, ml)" by (cases lists) auto
  from Inr lists obtain base_domain where
    cl: "classify_links lib base_url base_domain (soup_hrefs sp) ([], [], []) = Inr (il, el, ml)"
    by (auto simp: classified_links_def py_bind_Inr_iff)
  let ?keep = "\<lambda>h. \<not> prefix ''mailto:'' h \<and> \<not> prefix ''javascript:'' h"
  let ?ext = "\<lambda>h. prefix ''http'' h \<and> \<not> sublist base_domain h"
  from classify_links_Inr [OF cl] obtain resolve where
      il: "il = map resolve (filter (\<lambda>h. ?keep h \<and> \<not> ?ext h) (soup_hrefs sp))"
    and el: "el = filter (\<lambda>h. ?keep h \<and> ?ext h) (soup_hrefs sp)"
    by auto
  have le: "int (length (remdups il)) + int (length (remdups el))
      \<le> int (length il) + int (length el)"
    using length_remdups_leq [of il] length_remdups_leq [of el] by linarith
  have strict: "int (length (remdups il)) + int (length (remdups el))
      < int (length il) + int (length el)"
    if nd: "\<not> distinct (filter ?keep (soup_hrefs sp))"
  proof -
    from nd distinct_filter_split [of ?keep ?ext "soup_hrefs sp"]
    have "\<not> distinct (filter (\<lambda>h. ?keep h \<and> ?ext h) (soup_hrefs sp))
        \<or> \<not> distinct (filter (\<lambda>h. ?keep h \<and> \<not> ?ext h) (soup_hrefs sp))"
      by blast
    then have "\<not> distinct el \<or> \<not> distinct il"
      unfolding il el by (auto simp: distinct_map)
    then show ?thesis
      using remdups_shorter [of il] remdups_shorter [of el]
        length_remdups_leq [of il] length_remdups_leq [of el] by linarith
  qed
  show ?thesis
    using Inr lists le strict by (simp add: extract_links_def py_get_def)
qed

text \<open>
  Claim C10 as stated fails: when a later href makes \<^verbatim>\<open>urljoin\<close> raise, the handler
  returns the three zero counts, and the repeated internal href \<^verbatim>\<open>/a\<close> leaves
  \<^verbatim>\<open>total\<close> equal to \<^verbatim>\<open>internal + external\<close>.
\<close>

theorem link_total_fallback_counterexample:
  "soup_hrefs (page_with_links [''/a'', ''/a'', ''//['']) = [''/a'', ''/a'', ''//['']
 \<and> extract_links sample_lib (page_with_links [''/a'', ''/a'', ''//['']) ''http://a.test/''
     = PDict [(PStr ''total'', PInt 0), (PStr ''internal'', PInt 0), (PStr ''external'', PInt 0)]"
  by code_simp

theorem link_total_bounds_distinct_counts_witness:
  "classified_links sample_lib
      (page_with_links [''/a'', ''/a'', ''http://b.test/x'', ''mailto:x@b.test''])
      ''http://a.test/''
     = Inr ([''http://a.test/a'', ''http://a.test/a''], [''http://b.test/x''], [''mailto:x@b.test''])
 \<and> \<not> distinct (filter (\<lambda>h. \<not> prefix ''mailto:'' h \<and> \<not> prefix ''javascript:'' h)
       (soup_hrefs (page_with_links [''/a'', ''/a'', ''http://b.test/x'', ''mailto:x@b.test''])))
 \<and> (\<exists>t i e.
      py_get (extract_links sample_lib
         (page_with_links [''/a'', ''/a'', ''http://b.test/x'', ''mailto:x@b.test''])
         ''http://a.test/'') ''total'' PNone = Inr (PInt t)
    \<and> py_get (extract_links sample_lib
         (page_with_links [''/a'', ''/a'', ''http://b.test/x'', ''mailto:x@b.test''])
         ''http://a.test/'') ''internal'' PNone = Inr (PInt i)
    \<and> py_get (extract_links sample_lib
         (page_with_links [''/a'', ''/a'', ''http://b.test/x'', ''mailto:x@b.test''])
         ''http://a.test/'') ''external'' PNone = Inr (PInt e)
    \<and> i + e < t)"
  (is "?c \<and> ?d \<and> ?P")
proof -
  have c: ?c by code_simp
  have d: ?d by code_simp
  from link_total_bounds_distinct_counts
    [of sample_lib "page_with_links [''/a'', ''/a'', ''http://b.test/x'', ''mailto:x@b.test'']"
        "''http://a.test/''"] c d
  have ?P by blast
  with c d show ?thesis by blast
qed

text \<open>
  Claim C3 at the input where the code departs from it. The request host is
  \<^verbatim>\<open>a.test\<close> and the href's host is \<^verbatim>\<open>evil.test\<close>, yet the href is counted as
  internal, because \<^verbatim>\<open>base_domain in href\<close> finds \<^verbatim>\<open>a.test\<close> in the query string.
\<close>

theorem link_substring_classification:
  "urlparse_netloc sample_lib ''http://a.test/'' = Inr ''a.test''
 \<and> urlparse_netloc sample_lib ''http://evil.test/?next=a.test'' = Inr ''evil.test''
 \<and> classified_links sample_lib (page_with_links [''http://evil.test/?next=a.test''])
      ''http://a.test/'' = Inr ([''http://evil.test/?next=a.test''], [], [])
 \<and> extract_links sample_lib (page_with_links [''http://evil.test/?next=a.test''])
      ''http://a.test/'' = PDict
          [(PStr ''total'', PInt 1),
           (PStr ''internal'', PInt 1),
           (PStr ''external'', PInt 0),
           (PStr ''email'', PInt 0),
           (PStr ''internal_links'', PList [PStr ''http://evil.test/?next=a.test'']),
           (PStr ''external_links'', PList []),
           (PStr ''email_links'', PList [])]"
  by code_simp

subsection \<open>The depth-limited crawl\<close>

lemma crawl_depth_loop_requests:
  assumes "crawl_depth_loop lib web base_domain links crawled visited requested
             = (r, visited', requested')"
  shows "\<exists>new. requested' = requested @ new \<and> distinct new \<and> set new \<inter> visited = {}
           \<and> set new \<subseteq> set links \<and> visited' = visited \<union> set new
           \<and> (\<forall>l \<in> set new. urlparse_netloc lib l = Inr base_domain)"
  using assms
proof (induction links arbitrary: crawled visited requested)
  case Nil
  then show ?case by simp
next
  case (Cons link rest)
  show ?case
  proof (cases "link \<in> visited")
    case True
    with Cons.prems have "crawl_depth_loop lib web base_domain rest crawled visited requested
        = (r, visited', requested')" by simp
    from Cons.IH [OF this] show ?thesis by auto
  next
    case nv: False
    show ?thesis
    proof (cases "urlparse_netloc lib link")
      case (Inl e)
      with nv Cons.prems show ?thesis by simp
    next
      case (Inr netloc)
      show ?thesis
      proof (cases "netloc = base_domain")
        case False
        with nv Inr Cons.prems
        have "crawl_depth_loop lib web base_domain rest crawled visited requested
            = (r, visited', requested')" by simp
        from Cons.IH [OF this] show ?thesis by auto
      next
        case True
        with nv Inr Cons.prems obtain crawled2 where
          "crawl_depth_loop lib web base_domain rest crawled2 (insert link visited)
             (requested @ [link]) = (r, visited', requested')"
          by (auto split: http_outcome.splits if_splits sum.splits)
        from Cons.IH [OF this] obtain new where
            n1: "requested' = (requested @ [link]) @ new" and n2: "distinct new"
          and n3: "set new \<inter> insert link visited = {}" and n4: "set new \<subseteq> set rest"
          and n5: "visited' = insert link visited \<union> set new"
          and n6: "\<forall>l \<in> set new. urlparse_netloc lib l = Inr base_domain"
          by blast
        have "requested' = requested @ (link # new)" using n1 by simp
        moreover have "distinct (link # new)" using n2 n3 by auto
        moreover have "set (link # new) \<inter> visited = {}" using n3 nv by auto
        moreover have "set (link # new) \<subseteq> set (link # rest)" using n4 by auto
        moreover have "visited' = visited \<union> set (link # new)" using n5 by auto
        moreover have "\<forall>l \<in> set (link # new). urlparse_netloc lib l = Inr base_domain"
          using n6 Inr True by auto
        ultimately show ?thesis by blast
      qed
    qed
  qed
qed










text \<open>
  Claim C5 at the input where the code departs from it. The seed page links to eight
  pages of its host, the first of them being the seed itself. The seed URL is never put
  into the visited set, so it is requested a second time at depth two, and only four
  other pages are.
\<close>

theorem seed_requested_twice:
  "snd (snd (crawl sample_lib self_link_web new_engine ''http://a.test/'' 2))
   = [''http://a.test/'', ''http://a.test/'', ''http://a.test/p1'', ''http://a.test/p2'',
      ''http://a.test/p3'', ''http://a.test/p4'']"
  by code_simp

text \<open>
  The parts of claim C5 that the code keeps. With eight links to other pages of the host,
  a fresh engine requests the seed and the first five of them. In general the links that
  \<^verbatim>\<open>_crawl_depth\<close> requests are distinct, at most five, among the first five links,
  not visited before, and of the host of the seed; they are exactly the first five links
  when these are distinct, unvisited and of that host.
\<close>

lemma eight_links_five_requests:
  "snd (snd (crawl sample_lib eight_links_web new_engine ''http://a.test/'' 2))
   = [''http://a.test/'', ''http://a.test/p1'', ''http://a.test/p2'', ''http://a.test/p3'',
      ''http://a.test/p4'', ''http://a.test/p5'']"
  by code_simp



lemma crawl_depth_requests:
  assumes "crawl_depth lib web self links url d = (r, self', q)"
  shows "distinct q \<and> length q \<le> 5 \<and> set q \<subseteq> set (take 5 links)
       \<and> set q \<inter> visited_urls self = {}
       \<and> (\<forall>l \<in> set q. urlparse_netloc lib l = urlparse_netloc lib url)
       \<and> visited_urls self' = visited_urls self \<union> set q"
proof (cases "urlparse_netloc lib url")
  case (Inl e)
  with assms show ?thesis by (auto simp: crawl_depth_def)
next
  case (Inr base_domain)
  with assms obtain visited' where
    lp: "crawl_depth_loop lib web base_domain (take 5 links) [] (visited_urls self) []
           = (r, visited', q)" and s: "self' = self\<lparr>visited_urls := visited'\<rparr>"
    by (auto simp: crawl_depth_def split: prod.splits)
  from crawl_depth_loop_requests [OF lp] have
      d: "distinct q" and v: "set q \<inter> visited_urls self = {}"
    and sub: "set q \<subseteq> set (take 5 links)" and v': "visited' = visited_urls self \<union> set q"
    and h: "\<forall>l \<in> set q. urlparse_netloc lib l = Inr base_domain"
    by auto
  have "length q = card (set q)" using d by (simp add: distinct_card)
  also have "\<dots> \<le> card (set (take 5 links))" using sub by (simp add: card_mono)
  also have "\<dots> \<le> length (take 5 links)" by (rule card_length)
  also have "\<dots> \<le> 5" by simp
  finally have "length q \<le> 5" .
  with d v sub v' h s Inr show ?thesis by simp
qed

lemma crawl_depth_loop_all:
  assumes "distinct links" and "set links \<inter> visited = {}"
    and "\<forall>l \<in> set links. urlparse_netloc lib l = Inr base_domain"
  shows "\<exists>r. crawl_depth_loop lib web base_domain links crawled visited requested
           = (r, visited \<union> set links, requested @ links)"
  using assms
proof (induction links arbitrary: crawled visited requested)
  case Nil
  then show ?case by simp
next
  case (Cons link rest)
  from Cons.prems have nv: "link \<notin> visited" and host: "urlparse_netloc lib link = Inr base_domain"
    and d: "distinct rest" and dis: "set rest \<inter> insert link visited = {}"
    and hs: "\<forall>l \<in> set rest. urlparse_netloc lib l = Inr base_domain"
    by auto
  have step: "\<exists>r. crawl_depth_loop lib web base_domain rest c (insert link visited)
        (requested @ [link]) = (r, visited \<union> set (link # rest), requested @ link # rest)" for c
    using Cons.IH [OF d dis hs, of c "requested @ [link]"] by simp
  show ?case
    using nv host step by (simp split: http_outcome.split sum.split)
qed

lemma crawl_depth_first_five:
  assumes "urlparse_netloc lib url = Inr base_domain"
    and "distinct (take 5 links)" and "set (take 5 links) \<inter> visited_urls self = {}"
    and "\<forall>l \<in> set (take 5 links). urlparse_netloc lib l = Inr base_domain"
  shows "snd (snd (crawl_depth lib web self links url d)) = take 5 links"
proof -
  from crawl_depth_loop_all [OF assms(2) assms(3) assms(4), of web "[]" "[]"]
  obtain r where "crawl_depth_loop lib web base_domain (take 5 links) [] (visited_urls self) []
      = (r, visited_urls self \<union> set (take 5 links), take 5 links)"
    by auto
  then show ?thesis by (simp add: crawl_depth_def assms(1))
qed

end
